theory Spec2Isabelle
  imports Complex_Main
begin

chapter \<open>The payment gate of the sBTC DeFi intelligence API\<close>

text \<open>
  An embedding of the payment gate of \<open>src/index.ts\<close>: the choice of the token type
  (\<open>getPaymentTokenType\<close>), the 402 challenge (\<open>paymentRequired\<close>), the verification of a
  payment against the ledger (\<open>verifyPayment\<close>) and the handler of \<open>GET /peg-health\<close>,
  followed by the properties of them that the specification states.
\<close>

section \<open>JavaScript values, as far as the payment gate touches them\<close>

text \<open>
  A \<open>string\<close> is a list of 8-bit characters, read as Latin-1 code points: the range an
  HTTP header value is made of. Code points produced by \<open>toUpperCase\<close> can leave that
  range, so its result is a list of code points.

  \<open>JNum\<close> holds a number by the text \<open>ToString\<close> prints for it; printing is the only
  thing the code below does with a number it finds in a ledger answer. \<open>JObj\<close> lists the
  own properties of an object made by \<open>JSON.parse\<close>, each key once.
\<close>

datatype jsval =
    JUndefined
  | JNull
  | JBool bool
  | JNum string
  | JStr string
  | JArr "jsval list"
  | JObj "(string \<times> jsval) list"

text \<open>
  A thrown error is kept as the text \<open>String(error)\<close> gives, the only way the code looks
  at one. The texts of the engine's own TypeErrors are those of V8.
\<close>

type_synonym thrown = string

text \<open>
  \<open>v.k\<close> for a property name \<open>k\<close> that no built-in prototype defines (every name read
  below is such a name): reading from \<open>undefined\<close> or \<open>null\<close> throws, an object gives
  its own property or \<open>undefined\<close>, every other value gives \<open>undefined\<close>.
\<close>

definition quoted :: "string \<Rightarrow> string" where
  "quoted k = [CHR 0x27] @ k @ [CHR 0x27]"

fun get_prop :: "jsval \<Rightarrow> string \<Rightarrow> thrown + jsval" where
  "get_prop JUndefined k =
     Inl (''TypeError: Cannot read properties of undefined (reading '' @ quoted k @ '')'')"
| "get_prop JNull k =
     Inl (''TypeError: Cannot read properties of null (reading '' @ quoted k @ '')'')"
| "get_prop (JObj kvs) k = Inr (case map_of kvs k of None \<Rightarrow> JUndefined | Some v \<Rightarrow> v)"
| "get_prop v k = Inr JUndefined"

text \<open>
  \<open>ToString\<close>, as a template literal applies it. An array prints its elements joined by
  commas, \<open>undefined\<close> and \<open>null\<close> elements as nothing. A parsed object prints as
  \<open>[object Object]\<close> through the inherited \<open>toString\<close>; when it has an own property
  called \<open>toString\<close> (never callable in parsed JSON) the conversion throws.
\<close>

fun to_string :: "jsval \<Rightarrow> thrown + string"
  and join_elements :: "jsval list \<Rightarrow> thrown + string" where
  "to_string JUndefined = Inr ''undefined''"
| "to_string JNull = Inr ''null''"
| "to_string (JBool b) = Inr (if b then ''true'' else ''false'')"
| "to_string (JNum s) = Inr s"
| "to_string (JStr s) = Inr s"
| "to_string (JArr xs) = join_elements xs"
| "to_string (JObj kvs) =
     (if ''toString'' \<in> fst ` set kvs
      then Inl ''TypeError: Cannot convert object to primitive value''
      else Inr ''[object Object]'')"
| "join_elements [] = Inr []"
| "join_elements (x # xs) =
     (case (if x = JUndefined \<or> x = JNull then Inr [] else to_string x) of
        Inl e \<Rightarrow> Inl e
      | Inr s \<Rightarrow>
          (if xs = [] then Inr s
           else (case join_elements xs of Inl e \<Rightarrow> Inl e | Inr r \<Rightarrow> Inr (s @ '','' @ r))))"

text \<open>\<open>a || b\<close> on a string that may be absent: the empty string is falsy, like \<open>undefined\<close>.\<close>

definition truthy :: "string option \<Rightarrow> bool" where
  "truthy a = (case a of None \<Rightarrow> False | Some s \<Rightarrow> s \<noteq> [])"

definition or_else :: "string option \<Rightarrow> string option \<Rightarrow> string option" where
  "or_else a b = (if truthy a then a else b)"

definition or_string :: "string option \<Rightarrow> string \<Rightarrow> string" where
  "or_string a d = (case a of None \<Rightarrow> d | Some s \<Rightarrow> if s \<noteq> [] then s else d)"

text \<open>
  \<open>String.prototype.toUpperCase\<close> on Latin-1 code points: the letters a-z and the
  accented letters move down by 32, the sharp s becomes SS, the micro sign and the y with
  diaeresis get capitals outside Latin-1, everything else stays.
\<close>

definition upper_char :: "char \<Rightarrow> nat list" where
  "upper_char c =
     (let n = of_char c in
      if 97 \<le> n \<and> n \<le> 122 then [n - 32]
      else if n = 181 then [924]
      else if n = 223 then [83, 83]
      else if 224 \<le> n \<and> n \<le> 254 \<and> n \<noteq> 247 then [n - 32]
      else if n = 255 then [376]
      else [n])"

definition toUpperCase :: "string \<Rightarrow> nat list" where
  "toUpperCase s = concat (map upper_char s)"

definition code_points :: "string \<Rightarrow> nat list" where
  "code_points s = map of_char s"

text \<open>
  Amounts are integers in the smallest unit. A JavaScript number holds an integer
  exactly when it is a safe integer (\<open>Number.isSafeInteger\<close>); the two functions below
  model the code on safe integers, and the statements that depend on their values are made
  for safe integers only.
\<close>

definition isSafeInteger :: "int \<Rightarrow> bool" where
  "isSafeInteger i = (- (2 ^ 53 - 1) \<le> i \<and> i \<le> 2 ^ 53 - 1)"

text \<open>
  \<open>Number.prototype.toString\<close> on a safe integer: its decimal digits (exponent notation
  only starts at \<open>10^21\<close>, beyond the safe integers).
\<close>

fun digits :: "nat \<Rightarrow> string" where
  "digits n =
     (if n < 10 then [''0123456789'' ! n]
      else digits (n div 10) @ [''0123456789'' ! (n mod 10)])"

definition number_toString :: "int \<Rightarrow> string" where
  "number_toString i = (if i < 0 then ''-'' @ digits (nat (- i)) else digits (nat i))"

text \<open>
  \<open>Math.ceil(a / b)\<close> on a safe integer \<open>a\<close> and \<open>b = 1000\<close>, the only divisor the code
  uses: the ceiling of the exact quotient. The machine rounds the quotient first, by less
  than one thousandth for a safe integer, so the rounded quotient lies between the same
  two integers as the exact one and has the same ceiling. (Beyond the safe integers the
  two can differ.)
\<close>

definition Math_ceil_div :: "int \<Rightarrow> int \<Rightarrow> int" where
  "Math_ceil_div a b = \<lceil>(of_int a :: real) / of_int b\<rceil>"

text \<open>
  The text \<open>new Date(t).toISOString()\<close> gives for the time value \<open>t\<close> (milliseconds
  since the epoch), kept by the time value it prints.
\<close>

datatype iso_string = ISO int

section \<open>Payment configuration\<close>

record contract_config =
  address :: string
  name :: string
  standardPrice :: int
  premiumPrice :: int
  standardPriceSbtc :: int
  premiumPriceSbtc :: int
  recipient :: string

definition CONTRACT :: contract_config where
  "CONTRACT = \<lparr>
     address = ''SPP5ZMH9NQDFD2K5CEQZ6P02AP8YPWMQ75TJW20M'',
     name = ''simple-oracle'',
     standardPrice = 2000,
     premiumPrice = 5000,
     standardPriceSbtc = 2,
     premiumPriceSbtc = 5,
     recipient = ''SPKH9AWG0ENZ87J1X0PBD4HETP22G8W22AFNVF8K'' \<rparr>"

datatype PaymentTokenType = STX | sBTC

text \<open>
  The request context: what \<open>c.req.header(name)\<close> and \<open>c.req.query(name)\<close> return,
  \<open>None\<close> for \<open>undefined\<close>.
\<close>

record request_context =
  header :: "string \<Rightarrow> string option"
  query :: "string \<Rightarrow> string option"

definition getPaymentTokenType :: "request_context \<Rightarrow> PaymentTokenType" where
  "getPaymentTokenType c =
     (let queryToken = query c ''tokenType'';
          headerToken = header c ''X-PAYMENT-TOKEN-TYPE'';
          tokenStr = toUpperCase (or_string (or_else headerToken queryToken) ''STX'')
      in if tokenStr = code_points ''SBTC'' then sBTC else STX)"

definition HIRO_API :: string where
  "HIRO_API = ''https://api.hiro.so''"

record sbtc_contracts =
  token :: string
  deposit :: string

definition SBTC :: sbtc_contracts where
  "SBTC = \<lparr>
     token = ''SM3VDXK3WZZSA84XXFKAFAF15NNZX32CTSG82JFQ4.sbtc-token'',
     deposit = ''SM3KNVZS30WM7F89SXKVVFY4SN9RMPZZ9FX929N0V.sbtc-deposit'' \<rparr>"

section \<open>The outside world\<close>

text \<open>
  What \<open>await fetch(url)\<close> followed by \<open>await response.json()\<close> can come to: the
  fetch rejects (no connection, no answer), or it gives a response with its \<open>ok\<close> flag
  and a body that either fails to parse as JSON or parses to a value.
\<close>

datatype fetch_result =
    Rejects thrown
  | Responds bool "thrown + jsval"

text \<open>
  The world a request runs in: the network's answer to the \<open>n\<close>-th request when it asks
  for a URL, the URLs requested so far, the reading of \<open>Date.now()\<close> and the value
  \<open>crypto.randomUUID()\<close> hands out.
\<close>

record world =
  network :: "nat \<Rightarrow> string \<Rightarrow> fetch_result"
  requests :: "string list"
  clock :: int
  randomUUID :: string

definition fetch :: "string \<Rightarrow> world \<Rightarrow> fetch_result \<times> world" where
  "fetch url w = (network w (length (requests w)) url, w\<lparr>requests := requests w @ [url]\<rparr>)"

section \<open>The 402 challenge\<close>

record why_stacks_info =
  message :: string
  benefits :: "string list"

record base_response =
  error :: string
  code :: string
  resource :: string
  nonce :: string
  expiresAt :: iso_string
  network_name :: string
  why_stacks :: why_stacks_info

text \<open>Both challenge bodies spread the base response and add an instruction list.\<close>

record challenge = base_response +
  instructions :: "string list"

record sbtc_challenge = challenge +
  maxAmountRequired :: string
  payTo :: string
  tokenType :: string
  tokenContract :: sbtc_contracts

record payment_info =
  contract :: string
  function_name :: string
  price :: int
  token :: string
  recipient :: string

text \<open>
  \<open>function_name\<close> and \<open>method_name\<close> are the fields \<open>function\<close> and \<open>method\<close> of the
  source, \<open>network_name\<close> its field \<open>network\<close>.
\<close>

record stx_option =
  price :: int
  method_name :: string

record sbtc_option =
  price :: int
  method_name :: string
  tokenContract :: sbtc_contracts

record payment_options =
  stx :: stx_option
  sbtc :: sbtc_option

record stx_challenge = challenge +
  payment :: payment_info
  paymentOptions :: payment_options

text \<open>The bodies of the 403 and 200 answers of a priced endpoint.\<close>

record rejection =
  error :: string
  details :: "string option"

record 'd peg_health_report =
  timestamp :: iso_string
  paymentVerified :: bool
  caller :: "jsval option"
  report :: 'd

text \<open>The result of \<open>verifyPayment\<close>; an absent \<open>error\<close> or \<open>caller\<close> is \<open>None\<close>.\<close>

record verification =
  valid :: bool
  error :: "string option"
  caller :: "jsval option"

datatype challenge_body =
    is_sbtc: SbtcChallenge (the_sbtc: sbtc_challenge)
  | is_stx: StxChallenge (the_stx: stx_challenge)

text \<open>\<open>c.json(body, status)\<close>.\<close>

datatype 'a json_response = Json (body: 'a) (status: nat)

definition expectedContract :: string where
  "expectedContract = address CONTRACT @ ''.'' @ name CONTRACT"

text \<open>
  \<open>sbtcPrice\<close> is the optional fourth argument, \<open>None\<close> when the caller leaves it out.
  Both uses of it are truthiness tests: a price of zero counts like a missing one.
\<close>

definition or_number :: "int option \<Rightarrow> int \<Rightarrow> int" where
  "or_number a d = (case a of None \<Rightarrow> d | Some p \<Rightarrow> if p \<noteq> 0 then p else d)"

definition paymentRequired ::
  "request_context \<Rightarrow> string \<Rightarrow> int \<Rightarrow> int option \<Rightarrow> world \<Rightarrow> challenge_body json_response" where
  "paymentRequired c resource' price' sbtcPrice w =
     (let tokenType' = getPaymentTokenType c;
          nonce' = randomUUID w;
          expiresAt' = ISO (clock w + 10 * 60 * 1000);
          baseResponse = \<lparr>
            base_response.error = ''Payment Required'',
            code = ''PAYMENT_REQUIRED'',
            resource = resource',
            nonce = nonce',
            expiresAt = expiresAt',
            network_name = ''mainnet'',
            why_stacks = \<lparr>
              message = ''This API runs on Stacks - the only Bitcoin L2 with smart contracts'',
              benefits = [
                ''sBTC: Trustless 1:1 Bitcoin peg (not wrapped)'',
                ''Clarity: Decidable smart contracts with no runtime surprises'',
                ''Bitcoin finality: Transactions settle on Bitcoin'',
                ''x402: Native micropayments without credit cards or accounts''] \<rparr> \<rparr>;
          stxResponse =
            Json (StxChallenge
              (challenge.extend
                 (base_response.extend baseResponse
                    (challenge.fields [
                       ''1. Call the contract with STX payment (or use ?tokenType=sBTC for sBTC)'',
                       ''2. Wait for transaction confirmation'',
                       ''3. Retry request with X-Payment header containing txid'']))
                 (stx_challenge.fields
                    \<lparr> contract = expectedContract,
                      function_name = ''call-with-stx'',
                      payment_info.price = price',
                      token = ''STX'',
                      recipient = contract_config.recipient CONTRACT \<rparr>
                    \<lparr> stx = \<lparr> stx_option.price = price', stx_option.method_name = ''contract-call'' \<rparr>,
                      sbtc = \<lparr> price = or_number sbtcPrice (Math_ceil_div price' 1000),
                               method_name = ''direct-transfer'',
                               tokenContract = SBTC \<rparr> \<rparr>))) 402
      in case sbtcPrice of
           None \<Rightarrow> stxResponse
         | Some p \<Rightarrow>
             if tokenType' = sBTC \<and> p \<noteq> 0 then
               Json (SbtcChallenge
                 (challenge.extend
                    (base_response.extend baseResponse
                       (challenge.fields [
                          ''1. Sign an sBTC transfer transaction'',
                          ''2. Include the signed transaction hex in X-Payment header'',
                          ''3. Transaction will be broadcast and verified'']))
                    (sbtc_challenge.fields
                       (number_toString p)
                       (contract_config.recipient CONTRACT)
                       ''sBTC''
                       SBTC))) 402
             else stxResponse)"

section \<open>Verifying a payment on the ledger\<close>

text \<open>\<open>tx.contract_call?.contract_id\<close>.\<close>

definition contract_id_of :: "jsval \<Rightarrow> thrown + jsval" where
  "contract_id_of tx =
     (case get_prop tx ''contract_call'' of
        Inl e \<Rightarrow> Inl e
      | Inr cc \<Rightarrow> if cc = JUndefined \<or> cc = JNull then Inr JUndefined
                  else get_prop cc ''contract_id'')"

text \<open>The checks on the parsed transaction, in the order of the source.\<close>

definition check_tx :: "jsval \<Rightarrow> thrown + verification" where
  "check_tx tx =
     (case get_prop tx ''tx_status'' of
        Inl e \<Rightarrow> Inl e
      | Inr tx_status \<Rightarrow>
          if tx_status \<noteq> JStr ''success'' then
            (case to_string tx_status of
               Inl e \<Rightarrow> Inl e
             | Inr s \<Rightarrow>
                 Inr \<lparr>valid = False, error = Some (''Transaction status: '' @ s), caller = None\<rparr>)
          else
            (case get_prop tx ''tx_type'' of
               Inl e \<Rightarrow> Inl e
             | Inr tx_type \<Rightarrow>
                 if tx_type \<noteq> JStr ''contract_call'' then
                   Inr \<lparr>valid = False, error = Some ''Not a contract call'', caller = None\<rparr>
                 else
                   (case contract_id_of tx of
                      Inl e \<Rightarrow> Inl e
                    | Inr contract_id \<Rightarrow>
                        if contract_id \<noteq> JStr expectedContract then
                          Inr \<lparr>valid = False, error = Some ''Wrong contract'', caller = None\<rparr>
                        else
                          (case get_prop tx ''sender_address'' of
                             Inl e \<Rightarrow> Inl e
                           | Inr sender_address \<Rightarrow>
                               Inr \<lparr>valid = True, error = None,
                                    caller = Some sender_address\<rparr>))))"

definition tx_url :: "string \<Rightarrow> string" where
  "tx_url txid =
     (let normalizedTxid = (if take 2 txid = ''0x'' then txid else ''0x'' @ txid)
      in HIRO_API @ ''/extended/v1/tx/'' @ normalizedTxid)"

text \<open>The body of the \<open>try\<close> block: \<open>Inl\<close> is a throw that reaches the \<open>catch\<close>.\<close>

definition verifyPayment_try :: "string \<Rightarrow> world \<Rightarrow> (thrown + verification) \<times> world" where
  "verifyPayment_try txid w =
     (let (response, w') = fetch (tx_url txid) w in
      case response of
        Rejects e \<Rightarrow> (Inl e, w')
      | Responds ok parsed \<Rightarrow>
          if \<not> ok then
            (Inr \<lparr>valid = False, error = Some ''Transaction not found'', caller = None\<rparr>, w')
          else
            (case parsed of
               Inl e \<Rightarrow> (Inl e, w')
             | Inr tx \<Rightarrow> (check_tx tx, w')))"

definition verifyPayment :: "string \<Rightarrow> world \<Rightarrow> verification \<times> world" where
  "verifyPayment txid w =
     (case verifyPayment_try txid w of
        (Inr result, w') \<Rightarrow> (result, w')
      | (Inl e, w') \<Rightarrow>
          (\<lparr>valid = False, error = Some (''Verification failed: '' @ e), caller = None\<rparr>, w'))"

section \<open>The peg-health endpoint\<close>

text \<open>
  The handler of \<open>GET /peg-health\<close>. What it does once the payment is verified
  (\<open>calculatePegHealth\<close> and \<open>fetchSbtcMetrics\<close>, started together, and the floating-point
  report built from their results) is the parameter \<open>gather\<close>: any action on the world
  that returns the report's data.
\<close>

datatype 'd reply_body =
    is_challenge: PaymentChallenge (the_challenge: challenge_body)
  | Rejection rejection
  | Report "'d peg_health_report"

definition peg_health ::
  "(world \<Rightarrow> 'd \<times> world) \<Rightarrow> request_context \<Rightarrow> world \<Rightarrow> 'd reply_body json_response \<times> world" where
  "peg_health gather c w =
     (let challenge =
            (case paymentRequired c ''/peg-health'' (standardPrice CONTRACT)
                    (Some (standardPriceSbtc CONTRACT)) w of
               Json b st \<Rightarrow> (Json (PaymentChallenge b) st, w))
      in case header c ''X-Payment'' of
           None \<Rightarrow> challenge
         | Some paymentTxid \<Rightarrow>
             if paymentTxid = [] then challenge
             else
               (let (verification, w1) = verifyPayment paymentTxid w in
                if \<not> valid verification then
                  (Json (Rejection \<lparr> rejection.error = ''Payment verification failed'',
                                     details = error verification \<rparr>) 403, w1)
                else
                  (let (d, w2) = gather w1 in
                   (Json (Report \<lparr> timestamp = ISO (clock w2),
                                  paymentVerified = True,
                                  peg_health_report.caller = caller verification,
                                  report = d \<rparr>) 200, w2))))"

section \<open>The specification's selection rule, in its own words\<close>

text \<open>
  Two strings are equal ignoring case when they agree character by character after simple
  case folding (capital letters to small ones).
\<close>

definition fold_case :: "char \<Rightarrow> nat" where
  "fold_case c =
     (let n = of_char c in
      if 65 \<le> n \<and> n \<le> 90 then n + 32
      else if n = 181 then 956
      else if 192 \<le> n \<and> n \<le> 222 \<and> n \<noteq> 215 then n + 32
      else n)"

definition equal_ignoring_case :: "string \<Rightarrow> string \<Rightarrow> bool" where
  "equal_ignoring_case a b = (map fold_case a = map fold_case b)"

text \<open>
  The rule as the specification words it: the header hint takes precedence over the query
  hint; a hint equal to the ticker ignoring case selects the pegged asset, anything else
  (an absent hint too) the native token.
\<close>

definition selectTokenType :: "string option \<Rightarrow> string option \<Rightarrow> PaymentTokenType" where
  "selectTokenType headerHint queryHint =
     (case (case headerHint of Some h \<Rightarrow> Some h | None \<Rightarrow> queryHint) of
        None \<Rightarrow> STX
      | Some v \<Rightarrow> if equal_ignoring_case v ''sBTC'' then sBTC else STX)"

section \<open>Names for the statements, and sample data\<close>

text \<open>The answer the network gives to the lookup that \<open>verifyPayment txid\<close> makes in \<open>w\<close>.\<close>

definition ledger_answer :: "string \<Rightarrow> world \<Rightarrow> fetch_result" where
  "ledger_answer txid w = network w (length (requests w)) (tx_url txid)"

text \<open>
  A transaction as the ledger reports it, a world whose network answers the lookup of
  transaction \<open>ab12\<close> in a given way, and a request carrying a given token-type header,
  token-type query parameter and proof-token header (and nothing else).
\<close>

definition tx_json :: "jsval \<Rightarrow> jsval \<Rightarrow> jsval \<Rightarrow> jsval" where
  "tx_json tx_status tx_type contract_id =
     JObj [(''tx_id'', JStr ''0xab12''),
           (''tx_status'', tx_status),
           (''tx_type'', tx_type),
           (''contract_call'', JObj [(''contract_id'', contract_id), (''function_name'', JStr ''call-with-stx'')]),
           (''sender_address'', JStr ''SP2J6ZY48GV1EZ5V2V5RB9MP66SW86PYKKNRV9EJ7'')]"

definition paid_tx :: jsval where
  "paid_tx = tx_json (JStr ''success'') (JStr ''contract_call'')
     (JStr ''SPP5ZMH9NQDFD2K5CEQZ6P02AP8YPWMQ75TJW20M.simple-oracle'')"

definition world_answering :: "fetch_result \<Rightarrow> world" where
  "world_answering r = \<lparr>
     network = (\<lambda>n url. if url = ''https://api.hiro.so/extended/v1/tx/0xab12'' then r
                         else Rejects ''TypeError: fetch failed''),
     requests = [],
     clock = 1700000000000,
     randomUUID = ''3b241101-e2bb-4255-8caf-4136c566a962'' \<rparr>"

definition request_with :: "string option \<Rightarrow> string option \<Rightarrow> string option \<Rightarrow> request_context" where
  "request_with tokenHeader tokenQuery paymentTxid = \<lparr>
     header = (\<lambda>name. if name = ''X-PAYMENT-TOKEN-TYPE'' then tokenHeader
                       else if name = ''X-Payment'' then paymentTxid else None),
     query = (\<lambda>name. if name = ''tokenType'' then tokenQuery else None) \<rparr>"



text \<open>
  The calls of \<open>paymentRequired\<close> in the source, one per priced endpoint: the resource,
  the native price and the pegged-asset price passed.
\<close>

definition call_sites :: "(string \<times> int \<times> int) list" where
  "call_sites =
     [(''/yield-opportunities'', standardPrice CONTRACT, standardPriceSbtc CONTRACT),
      (''/peg-health'', standardPrice CONTRACT, standardPriceSbtc CONTRACT),
      (''/simulate'', premiumPrice CONTRACT, premiumPriceSbtc CONTRACT),
      (''/agent-intel'', premiumPrice CONTRACT, premiumPriceSbtc CONTRACT),
      (''/alpha'', premiumPrice CONTRACT, premiumPriceSbtc CONTRACT)]"

text \<open>
  A 402 answer that is the pegged-asset challenge for the amount \<open>p\<close>: token type
  \<open>sBTC\<close>, the amount printed in decimal, the recipient, the contract identifiers of the
  pegged asset, and the three instructions.
\<close>

definition is_pegged_challenge :: "challenge_body json_response \<Rightarrow> int \<Rightarrow> bool" where
  "is_pegged_challenge response p =
     (status response = 402 \<and> is_sbtc (body response) \<and>
      tokenType (the_sbtc (body response)) = ''sBTC'' \<and>
      maxAmountRequired (the_sbtc (body response)) = number_toString p \<and>
      payTo (the_sbtc (body response)) = contract_config.recipient CONTRACT \<and>
      sbtc_challenge.tokenContract (the_sbtc (body response)) = SBTC \<and>
      instructions (the_sbtc (body response)) =
        [''1. Sign an sBTC transfer transaction'',
         ''2. Include the signed transaction hex in X-Payment header'',
         ''3. Transaction will be broadcast and verified''])"

text \<open>
  A 402 answer that is the native challenge and whose \<open>paymentOptions\<close> block shows the
  native amount and the pegged-asset amount given.
\<close>

definition shows_both_prices :: "challenge_body json_response \<Rightarrow> int \<Rightarrow> int \<Rightarrow> bool" where
  "shows_both_prices response native pegged =
     (status response = 402 \<and> is_stx (body response) \<and>
      stx_option.price (stx (paymentOptions (the_stx (body response)))) = native \<and>
      sbtc_option.price (sbtc (paymentOptions (the_stx (body response)))) = pegged)"

text \<open>The fields both challenge bodies take over from the base response.\<close>

definition common_fields :: "challenge_body \<Rightarrow> base_response" where
  "common_fields b =
     (case b of
        SbtcChallenge x \<Rightarrow> base_response.truncate x
      | StxChallenge x \<Rightarrow> base_response.truncate x)"

text \<open>A world whose network is down.\<close>

definition quiet_world :: world where
  "quiet_world = world_answering (Rejects ''TypeError: fetch failed'')"

section \<open>Upper-casing against case folding\<close>

lemma upper_char_shape: "upper_char c = [83, 83] \<or> (\<exists>n. upper_char c = [n])"
  by (simp add: upper_char_def Let_def)

lemma upper_char_letter:
  assumes "L = 83 \<or> L = 66 \<or> L = 84 \<or> L = 67"
  shows "upper_char c = [L] \<longleftrightarrow> (of_char c :: nat) = L \<or> of_char c = L + 32"
  using assms by (auto simp: upper_char_def Let_def)

lemma fold_case_letter:
  assumes "L = 83 \<or> L = 66 \<or> L = 84 \<or> L = 67"
  shows "fold_case c = L + 32 \<longleftrightarrow> (of_char c :: nat) = L \<or> of_char c = L + 32"
  using assms by (auto simp: fold_case_def Let_def)

lemma upper_char_nonempty: "upper_char c \<noteq> []"
  by (simp add: upper_char_def Let_def)

lemma toUpperCase_Nil: "toUpperCase s = [] \<longleftrightarrow> s = []"
  by (cases s) (simp_all add: toUpperCase_def upper_char_nonempty)

lemma toUpperCase_step:
  assumes "toUpperCase s = L # t" and "case t of [] \<Rightarrow> True | y # _ \<Rightarrow> y \<noteq> 83"
  shows "\<exists>c s'. s = c # s' \<and> upper_char c = [L] \<and> toUpperCase s' = t"
proof (cases s)
  case Nil
  with assms show ?thesis by (simp add: toUpperCase_def)
next
  case (Cons c s')
  from upper_char_shape [of c] show ?thesis
  proof
    assume "upper_char c = [83, 83]"
    with assms Cons show ?thesis by (auto simp: toUpperCase_def split: list.splits)
  next
    assume "\<exists>n. upper_char c = [n]"
    with assms Cons show ?thesis by (auto simp: toUpperCase_def)
  qed
qed

lemma upper_is_SBTC:
  "toUpperCase s = code_points ''SBTC'' \<longleftrightarrow> equal_ignoring_case s ''sBTC''"
proof
  assume "toUpperCase s = code_points ''SBTC''"
  then have 0: "toUpperCase s = [83, 66, 84, 67]" by (simp add: code_points_def)
  from toUpperCase_step [OF 0] obtain a s1 where
    1: "s = a # s1" "upper_char a = [83]" "toUpperCase s1 = [66, 84, 67]" by auto
  from toUpperCase_step [OF 1(3)] obtain b s2 where
    2: "s1 = b # s2" "upper_char b = [66]" "toUpperCase s2 = [84, 67]" by auto
  from toUpperCase_step [OF 2(3)] obtain c s3 where
    3: "s2 = c # s3" "upper_char c = [84]" "toUpperCase s3 = [67]" by auto
  from toUpperCase_step [OF 3(3)] obtain d s4 where
    4: "s3 = d # s4" "upper_char d = [67]" "toUpperCase s4 = []" by auto
  from 4(3) have 5: "s4 = []" by (simp add: toUpperCase_Nil)
  from 1(2) 2(2) 3(2) 4(2) have
    "fold_case a = 115" "fold_case b = 98" "fold_case c = 116" "fold_case d = 99"
    using upper_char_letter [of 83 a] upper_char_letter [of 66 b]
      upper_char_letter [of 84 c] upper_char_letter [of 67 d]
      fold_case_letter [of 83 a] fold_case_letter [of 66 b]
      fold_case_letter [of 84 c] fold_case_letter [of 67 d] by simp_all
  with 1(1) 2(1) 3(1) 4(1) 5 show "equal_ignoring_case s ''sBTC''"
    by (simp add: equal_ignoring_case_def fold_case_def)
next
  assume "equal_ignoring_case s ''sBTC''"
  then have m: "map fold_case s = [115, 98, 116, 99]"
    by (simp add: equal_ignoring_case_def fold_case_def)
  then obtain a b c d where s: "s = [a, b, c, d]"
    and f: "fold_case a = 115" "fold_case b = 98" "fold_case c = 116" "fold_case d = 99"
    by (auto simp: map_eq_Cons_conv)
  from f have "upper_char a = [83]" "upper_char b = [66]" "upper_char c = [84]" "upper_char d = [67]"
    using upper_char_letter [of 83 a] upper_char_letter [of 66 b]
      upper_char_letter [of 84 c] upper_char_letter [of 67 d]
      fold_case_letter [of 83 a] fold_case_letter [of 66 b]
      fold_case_letter [of 84 c] fold_case_letter [of 67 d] by simp_all
  with s show "toUpperCase s = code_points ''SBTC''"
    by (simp add: toUpperCase_def code_points_def)
qed

section \<open>What verifyPayment answers\<close>

lemma verifyPayment_try_eq:
  "verifyPayment_try txid w =
     (case ledger_answer txid w of
        Rejects e \<Rightarrow> Inl e
      | Responds ok parsed \<Rightarrow>
          if \<not> ok then Inr \<lparr>valid = False, error = Some ''Transaction not found'', caller = None\<rparr>
          else (case parsed of Inl e \<Rightarrow> Inl e | Inr tx \<Rightarrow> check_tx tx),
      w\<lparr>requests := requests w @ [tx_url txid]\<rparr>)"
  by (simp add: verifyPayment_try_def fetch_def ledger_answer_def split: fetch_result.splits sum.splits)

lemma verifyPayment_world:
  "snd (verifyPayment txid w) = w\<lparr>requests := requests w @ [tx_url txid]\<rparr>"
  by (simp add: verifyPayment_def verifyPayment_try_eq split: fetch_result.splits sum.splits)


lemma verifyPayment_rejects:
  "ledger_answer txid w = Rejects e \<Longrightarrow>
   fst (verifyPayment txid w) = \<lparr>valid = False, error = Some (''Verification failed: '' @ e), caller = None\<rparr>"
  by (simp add: verifyPayment_def verifyPayment_try_eq)

lemma verifyPayment_bad_json:
  "ledger_answer txid w = Responds True (Inl e) \<Longrightarrow>
   fst (verifyPayment txid w) = \<lparr>valid = False, error = Some (''Verification failed: '' @ e), caller = None\<rparr>"
  by (simp add: verifyPayment_def verifyPayment_try_eq)

lemma verifyPayment_parsed:
  "ledger_answer txid w = Responds True (Inr tx) \<Longrightarrow>
   fst (verifyPayment txid w) =
     (case check_tx tx of
        Inr result \<Rightarrow> result
      | Inl e \<Rightarrow> \<lparr>valid = False, error = Some (''Verification failed: '' @ e), caller = None\<rparr>)"
  by (simp add: verifyPayment_def verifyPayment_try_eq split: sum.splits)




lemma get_prop_total:
  "get_prop tx k = Inr v \<Longrightarrow> \<exists>v'. get_prop tx k' = Inr v'"
  by (cases tx) simp_all

lemma check_tx_valid:
  assumes "get_prop tx ''tx_status'' = Inr (JStr ''success'')"
    and "get_prop tx ''tx_type'' = Inr (JStr ''contract_call'')"
    and "contract_id_of tx = Inr (JStr expectedContract)"
  shows "\<exists>sender. get_prop tx ''sender_address'' = Inr sender \<and>
           check_tx tx = Inr \<lparr>valid = True, error = None, caller = Some sender\<rparr>"
proof -
  from get_prop_total [OF assms(1)] obtain sender where
    "get_prop tx ''sender_address'' = Inr sender" by blast
  with assms show ?thesis by (simp add: check_tx_def)
qed

lemma check_tx_valid_iff:
  "(\<exists>r. check_tx tx = Inr r \<and> valid r) \<longleftrightarrow>
     get_prop tx ''tx_status'' = Inr (JStr ''success'') \<and>
     get_prop tx ''tx_type'' = Inr (JStr ''contract_call'') \<and>
     contract_id_of tx = Inr (JStr expectedContract)"
proof
  assume "\<exists>r. check_tx tx = Inr r \<and> valid r"
  then show "get_prop tx ''tx_status'' = Inr (JStr ''success'') \<and>
     get_prop tx ''tx_type'' = Inr (JStr ''contract_call'') \<and>
     contract_id_of tx = Inr (JStr expectedContract)"
    by (auto simp: check_tx_def split: sum.splits if_splits)
next
  assume "get_prop tx ''tx_status'' = Inr (JStr ''success'') \<and>
     get_prop tx ''tx_type'' = Inr (JStr ''contract_call'') \<and>
     contract_id_of tx = Inr (JStr expectedContract)"
  with check_tx_valid [of tx] show "\<exists>r. check_tx tx = Inr r \<and> valid r" by auto
qed





lemmas sample_defs = ledger_answer_def world_answering_def tx_url_def HIRO_API_def tx_json_def
  paid_tx_def contract_id_of_def CONTRACT_def expectedContract_def




text \<open>
  Claim C2. When the lookup succeeds (the response is ok and its body parses to \<open>tx\<close>),
  \<open>verifyPayment\<close> answers \<open>valid = True\<close> exactly when the status is the string
  \<open>success\<close>, the type is the string \<open>contract_call\<close> and the call target is the
  configured contract identifier; the caller it then returns is the sender address of the
  transaction.
\<close>

theorem verifyPayment_valid_iff:
  assumes "ledger_answer txid w = Responds True (Inr tx)"
  shows "(valid (fst (verifyPayment txid w)) \<longleftrightarrow>
            get_prop tx ''tx_status'' = Inr (JStr ''success'') \<and>
            get_prop tx ''tx_type'' = Inr (JStr ''contract_call'') \<and>
            contract_id_of tx = Inr (JStr (address CONTRACT @ ''.'' @ name CONTRACT)))
       \<and> (valid (fst (verifyPayment txid w)) \<longrightarrow>
            (\<exists>sender. get_prop tx ''sender_address'' = Inr sender \<and>
               caller (fst (verifyPayment txid w)) = Some sender))"
proof -
  let ?ok = "get_prop tx ''tx_status'' = Inr (JStr ''success'') \<and>
            get_prop tx ''tx_type'' = Inr (JStr ''contract_call'') \<and>
            contract_id_of tx = Inr (JStr expectedContract)"
  have r: "fst (verifyPayment txid w) =
     (case check_tx tx of
        Inr result \<Rightarrow> result
      | Inl e \<Rightarrow> \<lparr>valid = False, error = Some (''Verification failed: '' @ e), caller = None\<rparr>)"
    using assms by (rule verifyPayment_parsed)
  have v: "valid (fst (verifyPayment txid w)) \<longleftrightarrow> (\<exists>r. check_tx tx = Inr r \<and> valid r)"
    by (simp add: r split: sum.splits)
  have 1: "valid (fst (verifyPayment txid w)) \<longleftrightarrow> ?ok"
    by (simp only: v check_tx_valid_iff)
  have 2: "\<exists>sender. get_prop tx ''sender_address'' = Inr sender \<and>
               caller (fst (verifyPayment txid w)) = Some sender"
    if "valid (fst (verifyPayment txid w))"
  proof -
    from that 1 have ?ok by simp
    then obtain sender where "get_prop tx ''sender_address'' = Inr sender"
      and "check_tx tx = Inr \<lparr>valid = True, error = None, caller = Some sender\<rparr>"
      using check_tx_valid [of tx] by blast
    then show ?thesis by (simp add: r)
  qed
  from 1 2 show ?thesis by (simp add: expectedContract_def)
qed

theorem verifyPayment_valid_iff_witness:
  "ledger_answer ''ab12'' (world_answering (Responds True (Inr paid_tx))) = Responds True (Inr paid_tx)
   \<and> valid (fst (verifyPayment ''ab12'' (world_answering (Responds True (Inr paid_tx)))))
   \<and> caller (fst (verifyPayment ''ab12'' (world_answering (Responds True (Inr paid_tx)))))
       = Some (JStr ''SP2J6ZY48GV1EZ5V2V5RB9MP66SW86PYKKNRV9EJ7'')"
proof -
  have h: "ledger_answer ''ab12'' (world_answering (Responds True (Inr paid_tx)))
             = Responds True (Inr paid_tx)"
    by (simp add: ledger_answer_def world_answering_def tx_url_def HIRO_API_def)
  show ?thesis
    using h verifyPayment_valid_iff [OF h] by (simp add: sample_defs)
qed

text \<open>
  Claim C3. \<open>verifyPayment\<close> gives a definite verdict for every proof token and every
  world: the verdict is valid exactly when it carries no reason, a reason is never empty,
  and the call has made its one request. Every throw of the \<open>try\<close> block, whatever raised
  it, becomes the verdict \<open>valid = False\<close> with the reason \<open>Verification failed: ...\<close>; so
  do a fetch that fails and a body that is not JSON.
\<close>

theorem verifyPayment_always_answers:
  "(valid (fst (verifyPayment txid w)) \<longleftrightarrow> error (fst (verifyPayment txid w)) = None)
   \<and> error (fst (verifyPayment txid w)) \<noteq> Some []
   \<and> requests (snd (verifyPayment txid w)) = requests w @ [tx_url txid]
   \<and> (\<forall>e w'. verifyPayment_try txid w = (Inl e, w') \<longrightarrow>
        verifyPayment txid w =
          (\<lparr>valid = False, error = Some (''Verification failed: '' @ e), caller = None\<rparr>, w'))
   \<and> (\<forall>e. ledger_answer txid w = Rejects e \<longrightarrow>
        fst (verifyPayment txid w) =
          \<lparr>valid = False, error = Some (''Verification failed: '' @ e), caller = None\<rparr>)
   \<and> (\<forall>e. ledger_answer txid w = Responds True (Inl e) \<longrightarrow>
        fst (verifyPayment txid w) =
          \<lparr>valid = False, error = Some (''Verification failed: '' @ e), caller = None\<rparr>)"
proof -
  have c: "(\<exists>e. check_tx tx = Inl e) \<or>
           (\<exists>r. check_tx tx = Inr r \<and> (valid r \<longleftrightarrow> error r = None) \<and> error r \<noteq> Some [])" for tx
    by (cases "check_tx tx") (auto simp: check_tx_def split: sum.splits if_splits)
  have t: "(\<exists>e. fst (verifyPayment_try txid w) = Inl e) \<or>
           (\<exists>r. fst (verifyPayment_try txid w) = Inr r \<and> (valid r \<longleftrightarrow> error r = None)
                 \<and> error r \<noteq> Some [])"
    using c by (auto simp: verifyPayment_try_eq split: fetch_result.splits sum.splits)
  have 1: "(valid (fst (verifyPayment txid w)) \<longleftrightarrow> error (fst (verifyPayment txid w)) = None)
     \<and> error (fst (verifyPayment txid w)) \<noteq> Some []"
    using t by (cases "verifyPayment_try txid w") (auto simp: verifyPayment_def)
  have 2: "requests (snd (verifyPayment txid w)) = requests w @ [tx_url txid]"
    by (simp add: verifyPayment_world)
  have 3: "\<forall>e w'. verifyPayment_try txid w = (Inl e, w') \<longrightarrow>
        verifyPayment txid w =
          (\<lparr>valid = False, error = Some (''Verification failed: '' @ e), caller = None\<rparr>, w')"
    by (simp add: verifyPayment_def)
  from 1 2 3 verifyPayment_rejects verifyPayment_bad_json show ?thesis by blast
qed

theorem verifyPayment_always_answers_witness:
  "fst (verifyPayment ''ab12'' (world_answering (Rejects ''TypeError: fetch failed'')))
     = \<lparr>valid = False, error = Some ''Verification failed: TypeError: fetch failed'', caller = None\<rparr>
   \<and> fst (verifyPayment ''ab12''
        (world_answering (Responds True (Inl ''SyntaxError: Unexpected token < in JSON at position 0''))))
     = \<lparr>valid = False,
        error = Some ''Verification failed: SyntaxError: Unexpected token < in JSON at position 0'',
        caller = None\<rparr>
   \<and> verifyPayment ''ab12'' (world_answering (Responds True (Inr JNull)))
     = (\<lparr>valid = False,
         error = Some (''Verification failed: TypeError: Cannot read properties of null (reading ''
                        @ quoted ''tx_status'' @ '')''),
         caller = None\<rparr>,
        (world_answering (Responds True (Inr JNull)))
          \<lparr>requests := [''https://api.hiro.so/extended/v1/tx/0xab12'']\<rparr>)"
proof (intro conjI)
  show "fst (verifyPayment ''ab12'' (world_answering (Rejects ''TypeError: fetch failed'')))
     = \<lparr>valid = False, error = Some ''Verification failed: TypeError: fetch failed'', caller = None\<rparr>"
    using verifyPayment_always_answers [of "''ab12''" "world_answering (Rejects ''TypeError: fetch failed'')"]
    by (simp add: sample_defs)
  show "fst (verifyPayment ''ab12''
        (world_answering (Responds True (Inl ''SyntaxError: Unexpected token < in JSON at position 0''))))
     = \<lparr>valid = False,
        error = Some ''Verification failed: SyntaxError: Unexpected token < in JSON at position 0'',
        caller = None\<rparr>"
    using verifyPayment_always_answers [of "''ab12''"
        "world_answering (Responds True (Inl ''SyntaxError: Unexpected token < in JSON at position 0''))"]
    by (simp add: sample_defs)
  show "verifyPayment ''ab12'' (world_answering (Responds True (Inr JNull)))
     = (\<lparr>valid = False,
         error = Some (''Verification failed: TypeError: Cannot read properties of null (reading ''
                        @ quoted ''tx_status'' @ '')''),
         caller = None\<rparr>,
        (world_answering (Responds True (Inr JNull)))
          \<lparr>requests := [''https://api.hiro.so/extended/v1/tx/0xab12'']\<rparr>)"
    using verifyPayment_always_answers [of "''ab12''" "world_answering (Responds True (Inr JNull))"]
    by (simp add: sample_defs verifyPayment_try_eq check_tx_def)
qed

text \<open>
  Claim C8. Two calls of \<open>verifyPayment\<close> with the same proof token, one after the other,
  the ledger reporting the same successful call to the configured contract both times:
  both verdicts are valid and equal. The only trace a call leaves in the world is its
  request to the ledger, which the second call makes again: nothing was consumed or kept.
\<close>

theorem verifyPayment_twice:
  assumes "network w (length (requests w)) (tx_url txid) = Responds True (Inr tx)"
    and "network w (Suc (length (requests w))) (tx_url txid) = Responds True (Inr tx)"
    and "get_prop tx ''tx_status'' = Inr (JStr ''success'')"
    and "get_prop tx ''tx_type'' = Inr (JStr ''contract_call'')"
    and "contract_id_of tx = Inr (JStr (address CONTRACT @ ''.'' @ name CONTRACT))"
  shows "case verifyPayment txid w of (first, w1) \<Rightarrow>
           (case verifyPayment txid w1 of (second, w2) \<Rightarrow>
              valid first \<and> valid second \<and> second = first \<and>
              w1 = w\<lparr>requests := requests w @ [tx_url txid]\<rparr> \<and>
              w2 = w\<lparr>requests := requests w @ [tx_url txid, tx_url txid]\<rparr>)"
proof -
  let ?w1 = "w\<lparr>requests := requests w @ [tx_url txid]\<rparr>"
  from assms(3-5) obtain sender where
    c: "check_tx tx = Inr \<lparr>valid = True, error = None, caller = Some sender\<rparr>"
    using check_tx_valid [of tx] by (auto simp: expectedContract_def)
  have a1: "ledger_answer txid w = Responds True (Inr tx)"
    using assms(1) by (simp add: ledger_answer_def)
  have a2: "ledger_answer txid ?w1 = Responds True (Inr tx)"
    using assms(2) by (simp add: ledger_answer_def)
  have 1: "verifyPayment txid w = (\<lparr>valid = True, error = None, caller = Some sender\<rparr>, ?w1)"
    by (simp add: verifyPayment_def verifyPayment_try_eq a1 c)
  have 2: "verifyPayment txid ?w1 =
      (\<lparr>valid = True, error = None, caller = Some sender\<rparr>,
       w\<lparr>requests := requests w @ [tx_url txid, tx_url txid]\<rparr>)"
    by (simp add: verifyPayment_def verifyPayment_try_eq a2 c)
  show ?thesis by (simp add: 1 2)
qed

theorem verifyPayment_twice_witness:
  "case verifyPayment ''ab12'' (world_answering (Responds True (Inr paid_tx))) of (first, w1) \<Rightarrow>
     (case verifyPayment ''ab12'' w1 of (second, w2) \<Rightarrow>
        valid first \<and> valid second \<and> second = first \<and>
        requests w2 = [''https://api.hiro.so/extended/v1/tx/0xab12'',
                       ''https://api.hiro.so/extended/v1/tx/0xab12''])"
  using verifyPayment_twice [of "world_answering (Responds True (Inr paid_tx))" "''ab12''" paid_tx]
  by (simp add: sample_defs split: prod.splits)

section \<open>Selecting the token type\<close>

lemma default_is_native: "\<not> equal_ignoring_case ''STX'' ''sBTC''"
  by (simp add: equal_ignoring_case_def fold_case_def)

lemma empty_is_not_ticker: "\<not> equal_ignoring_case [] ''sBTC''"
  by (simp add: equal_ignoring_case_def)

lemma getPaymentTokenType_eq:
  "getPaymentTokenType c =
     (case or_else (header c ''X-PAYMENT-TOKEN-TYPE'') (query c ''tokenType'') of
        None \<Rightarrow> STX
      | Some v \<Rightarrow> if equal_ignoring_case v ''sBTC'' then sBTC else STX)"
  by (simp add: getPaymentTokenType_def or_string_def upper_is_SBTC default_is_native
      empty_is_not_ticker split: option.splits)

lemmas record_defs = base_response.defs challenge.defs sbtc_challenge.defs stx_challenge.defs

lemmas request_defs = getPaymentTokenType_eq request_with_def or_else_def truthy_def
  equal_ignoring_case_def fold_case_def

text \<open>
  Against claim C4 as it is worded: with an empty token-type header and the query
  parameter \<open>sbtc\<close>, the code selects the pegged asset, while the rule "the header takes
  precedence" selects the native token (the header is there, and is not the ticker).
\<close>

theorem getPaymentTokenType_counterexample:
  "getPaymentTokenType (request_with (Some []) (Some ''sbtc'') None) = sBTC
   \<and> selectTokenType (Some []) (Some ''sbtc'') = STX"
  by (simp add: getPaymentTokenType_eq request_with_def or_else_def truthy_def selectTokenType_def
      equal_ignoring_case_def fold_case_def)

text \<open>
  Claim C4, amended. \<open>getPaymentTokenType\<close> is the specification's rule applied to the
  header and the query parameter, once an empty header is counted as absent: a non-empty
  header takes precedence over the query parameter, a value equal to \<open>sBTC\<close> ignoring
  case selects the pegged asset, every other value, and no value, the native token.
\<close>

theorem getPaymentTokenType_selects:
  "getPaymentTokenType c =
     selectTokenType
       (if header c ''X-PAYMENT-TOKEN-TYPE'' = Some [] then None else header c ''X-PAYMENT-TOKEN-TYPE'')
       (query c ''tokenType'')"
  by (simp add: getPaymentTokenType_eq or_else_def truthy_def selectTokenType_def
      empty_is_not_ticker split: option.splits)

theorem getPaymentTokenType_selects_witness:
  "getPaymentTokenType (request_with (Some ''STX'') (Some ''sBTC'') None) = STX
   \<and> getPaymentTokenType (request_with (Some ''SbTc'') (Some ''STX'') None) = sBTC
   \<and> getPaymentTokenType (request_with None (Some ''sbtc'') None) = sBTC
   \<and> getPaymentTokenType (request_with None None None) = STX"
proof (intro conjI)
  show "getPaymentTokenType (request_with (Some ''STX'') (Some ''sBTC'') None) = STX"
    using getPaymentTokenType_selects [of "request_with (Some ''STX'') (Some ''sBTC'') None"]
    by (simp add: request_with_def selectTokenType_def equal_ignoring_case_def fold_case_def)
  show "getPaymentTokenType (request_with (Some ''SbTc'') (Some ''STX'') None) = sBTC"
    using getPaymentTokenType_selects [of "request_with (Some ''SbTc'') (Some ''STX'') None"]
    by (simp add: request_with_def selectTokenType_def equal_ignoring_case_def fold_case_def)
  show "getPaymentTokenType (request_with None (Some ''sbtc'') None) = sBTC"
    using getPaymentTokenType_selects [of "request_with None (Some ''sbtc'') None"]
    by (simp add: request_with_def selectTokenType_def equal_ignoring_case_def fold_case_def)
  show "getPaymentTokenType (request_with None None None) = STX"
    using getPaymentTokenType_selects [of "request_with None None None"]
    by (simp add: request_with_def selectTokenType_def equal_ignoring_case_def fold_case_def)
qed

text \<open>
  Claim C10. When the token-type header is present but empty, \<open>getPaymentTokenType\<close>
  decides by the query parameter alone, and by the default (native) when there is none.
\<close>

theorem empty_header_falls_back:
  assumes "header c ''X-PAYMENT-TOKEN-TYPE'' = Some []"
  shows "getPaymentTokenType c =
     (case query c ''tokenType'' of
        None \<Rightarrow> STX
      | Some v \<Rightarrow> if equal_ignoring_case v ''sBTC'' then sBTC else STX)"
  using assms by (simp add: getPaymentTokenType_eq or_else_def truthy_def)

theorem empty_header_falls_back_witness:
  "header (request_with (Some []) (Some ''sbtc'') None) ''X-PAYMENT-TOKEN-TYPE'' = Some []
   \<and> getPaymentTokenType (request_with (Some []) (Some ''sbtc'') None) = sBTC
   \<and> getPaymentTokenType (request_with (Some []) None None) = STX"
proof -
  have h: "header (request_with (Some []) q None) ''X-PAYMENT-TOKEN-TYPE'' = Some []" for q
    by (simp add: request_with_def)
  show ?thesis
    using h empty_header_falls_back [OF h [of "Some ''sbtc''"]] empty_header_falls_back [OF h [of None]]
    by (simp add: request_with_def equal_ignoring_case_def fold_case_def)
qed

section \<open>What the challenge contains\<close>

lemma call_sites_priced:
  "(r, amount, p) \<in> set call_sites \<Longrightarrow>
     0 < p \<and> isSafeInteger p \<and> 0 \<le> amount \<and> isSafeInteger amount"
  by (auto simp: call_sites_def CONTRACT_def isSafeInteger_def)

lemma pegged_challenge_nonzero:
  assumes "getPaymentTokenType c = sBTC" and "p \<noteq> 0"
  shows "is_pegged_challenge (paymentRequired c r amount (Some p) w) p"
  using assms by (simp add: is_pegged_challenge_def paymentRequired_def Let_def record_defs)

lemma both_prices_supplied:
  assumes "getPaymentTokenType c = STX" and "p \<noteq> 0"
  shows "shows_both_prices (paymentRequired c r amount (Some p) w) amount p"
  using assms
  by (simp add: shows_both_prices_def paymentRequired_def Let_def record_defs or_number_def)

lemma both_prices_fallback:
  assumes "getPaymentTokenType c = STX"
  shows "shows_both_prices (paymentRequired c r amount None w) amount \<lceil>real_of_int amount / 1000\<rceil>"
  using assms
  by (simp add: shows_both_prices_def paymentRequired_def Let_def record_defs or_number_def
      Math_ceil_div_def)

text \<open>
  Claim C5. When the resolved token type is the pegged asset, \<open>paymentRequired\<close> answers
  402 with the pegged-asset challenge for the supplied pegged-asset price: \<open>tokenType\<close>
  is \<open>sBTC\<close>, the amount is the supplied price, the token contract identifiers are
  those of the pegged asset, and the instruction list has the three steps sign, include
  in the proof header, await verification. This holds at every call in the source (each
  endpoint supplies its configured price, 2 or 5) and for every price that is a positive
  safe integer.
\<close>

theorem sbtc_challenge_when_priced:
  assumes "getPaymentTokenType c = sBTC"
  shows "(\<forall>(r, amount, p) \<in> set call_sites.
            is_pegged_challenge (paymentRequired c r amount (Some p) w) p)
       \<and> (\<forall>r amount p. 0 < p \<and> isSafeInteger p \<longrightarrow>
            is_pegged_challenge (paymentRequired c r amount (Some p) w) p)"
proof (intro conjI)
  show "\<forall>(r, amount, p) \<in> set call_sites.
            is_pegged_challenge (paymentRequired c r amount (Some p) w) p"
  proof (clarify)
    fix r amount p assume "(r, amount, p) \<in> set call_sites"
    then have "p \<noteq> 0" using call_sites_priced by fastforce
    with assms show "is_pegged_challenge (paymentRequired c r amount (Some p) w) p"
      by (rule pegged_challenge_nonzero)
  qed
  show "\<forall>r amount p. 0 < p \<and> isSafeInteger p \<longrightarrow>
            is_pegged_challenge (paymentRequired c r amount (Some p) w) p"
    using assms by (simp add: pegged_challenge_nonzero)
qed

theorem sbtc_challenge_when_priced_witness:
  "getPaymentTokenType (request_with None (Some ''sBTC'') None) = sBTC
   \<and> (''/peg-health'', 2000, 2) \<in> set call_sites
   \<and> (''/alpha'', 5000, 5) \<in> set call_sites
   \<and> tokenType (the_sbtc (body (paymentRequired (request_with None (Some ''sBTC'') None)
        ''/peg-health'' 2000 (Some 2) quiet_world))) = ''sBTC''
   \<and> maxAmountRequired (the_sbtc (body (paymentRequired (request_with None (Some ''sBTC'') None)
        ''/peg-health'' 2000 (Some 2) quiet_world))) = ''2''
   \<and> maxAmountRequired (the_sbtc (body (paymentRequired (request_with None (Some ''sBTC'') None)
        ''/alpha'' 5000 (Some 5) quiet_world))) = ''5''
   \<and> (0 < (9007199254740991::int) \<and> isSafeInteger 9007199254740991)
   \<and> maxAmountRequired (the_sbtc (body (paymentRequired (request_with None (Some ''sBTC'') None)
        ''/alpha'' 5000 (Some 9007199254740991) quiet_world))) = ''9007199254740991''"
proof -
  have t: "getPaymentTokenType (request_with None (Some ''sBTC'') None) = sBTC"
    by (simp add: request_defs)
  have s1: "(''/peg-health'', 2000, 2) \<in> set call_sites"
    and s2: "(''/alpha'', 5000, 5) \<in> set call_sites"
    by (simp_all add: call_sites_def CONTRACT_def)
  have big: "0 < (9007199254740991::int) \<and> isSafeInteger 9007199254740991"
    by (simp add: isSafeInteger_def)
  have d: "number_toString 2 = ''2''" "number_toString 5 = ''5''"
    by (simp_all add: number_toString_def)
  have d': "number_toString 9007199254740991 = ''9007199254740991''"
    by (simp add: number_toString_def)
  note inst = sbtc_challenge_when_priced [OF t, of quiet_world]
  from bspec [OF inst [THEN conjunct1] s1] have
    "is_pegged_challenge (paymentRequired (request_with None (Some ''sBTC'') None)
        ''/peg-health'' 2000 (Some 2) quiet_world) 2" by simp
  moreover from bspec [OF inst [THEN conjunct1] s2] have
    "is_pegged_challenge (paymentRequired (request_with None (Some ''sBTC'') None)
        ''/alpha'' 5000 (Some 5) quiet_world) 5" by simp
  moreover from inst [THEN conjunct2, rule_format, OF big] have
    "is_pegged_challenge (paymentRequired (request_with None (Some ''sBTC'') None)
        ''/alpha'' 5000 (Some 9007199254740991) quiet_world) 9007199254740991" .
  ultimately show ?thesis
    using t s1 s2 big by (simp add: is_pegged_challenge_def d d')
qed

text \<open>
  Claim C6. Every challenge \<open>paymentRequired\<close> produces has status 402, carries the nonce
  the generator handed out, and expires exactly 600 seconds (in milliseconds) after the
  clock reading it was made at, whatever the resource, the prices and the token type.
\<close>

theorem challenge_nonce_and_expiry:
  "status (paymentRequired c r amount sbtcPrice w) = 402
   \<and> nonce (common_fields (body (paymentRequired c r amount sbtcPrice w))) = randomUUID w
   \<and> expiresAt (common_fields (body (paymentRequired c r amount sbtcPrice w)))
       = ISO (clock w + 600 * 1000)"
  by (simp add: paymentRequired_def Let_def record_defs common_fields_def split: option.splits)

theorem challenge_nonce_and_expiry_witness:
  "expiresAt (common_fields (body (paymentRequired (request_with None (Some ''sBTC'') None)
       ''/alpha'' 5000 (Some 5) quiet_world))) = ISO 1700000600000
   \<and> expiresAt (common_fields (body (paymentRequired (request_with None None None)
       ''/alpha'' 5000 None quiet_world))) = ISO 1700000600000
   \<and> nonce (common_fields (body (paymentRequired (request_with None None None)
       ''/alpha'' 5000 None quiet_world))) = ''3b241101-e2bb-4255-8caf-4136c566a962''"
  using challenge_nonce_and_expiry [of "request_with None (Some ''sBTC'') None" "''/alpha''" 5000 "Some 5" quiet_world]
    challenge_nonce_and_expiry [of "request_with None None None" "''/alpha''" 5000 None quiet_world]
  by (simp add: quiet_world_def world_answering_def)

text \<open>
  Claim C7. A request to \<open>GET /peg-health\<close> without the proof-token header, whose hints do
  not select the pegged asset, is answered with status 402, \<open>code\<close>
  \<open>PAYMENT_REQUIRED\<close> and \<open>payment.price\<close> 2000, in the world it arrived in: no request
  went out to the ledger or to any data source, and the data gathering was not run.
\<close>

theorem peg_health_unpaid:
  assumes "header c ''X-Payment'' = None" and "getPaymentTokenType c = STX"
  shows "\<exists>b. peg_health gather c w = (Json (PaymentChallenge (StxChallenge b)) 402, w)
           \<and> code b = ''PAYMENT_REQUIRED''
           \<and> payment_info.price (payment b) = 2000"
  using assms by (simp add: peg_health_def paymentRequired_def Let_def record_defs CONTRACT_def)

theorem peg_health_unpaid_witness:
  "header (request_with None None None) ''X-Payment'' = None
   \<and> getPaymentTokenType (request_with None None None) = STX
   \<and> snd (peg_health (Pair ()) (request_with None None None) quiet_world) = quiet_world
   \<and> status (fst (peg_health (Pair ()) (request_with None None None) quiet_world)) = 402
   \<and> payment_info.price (payment (the_stx (the_challenge (body
        (fst (peg_health (Pair ()) (request_with None None None) quiet_world)))))) = 2000"
proof -
  have h: "header (request_with None None None) ''X-Payment'' = None"
    by (simp add: request_with_def)
  have t: "getPaymentTokenType (request_with None None None) = STX"
    by (simp add: request_defs)
  from peg_health_unpaid [OF h t, of "Pair ()" quiet_world]
  obtain b where "peg_health (Pair ()) (request_with None None None) quiet_world
      = (Json (PaymentChallenge (StxChallenge b)) 402, quiet_world)"
    and "payment_info.price (payment b) = 2000" by blast
  with h t show ?thesis by simp
qed

text \<open>
  Claim C9. When the resolved token type is native, the 402 body has a \<open>paymentOptions\<close>
  block with both denominations: the native amount, and a pegged-asset amount that is the
  supplied pegged price when one was supplied, and the native amount divided by 1000,
  rounded up, when none was. This holds at every call in the source and for all amounts
  and prices that are safe integers, the native amount not negative and the pegged price
  positive.
\<close>

theorem payment_options_both_prices:
  assumes "getPaymentTokenType c = STX"
  shows "(\<forall>(r, amount, p) \<in> set call_sites.
            shows_both_prices (paymentRequired c r amount (Some p) w) amount p)
       \<and> (\<forall>r amount p. 0 \<le> amount \<and> isSafeInteger amount \<and> 0 < p \<and> isSafeInteger p \<longrightarrow>
            shows_both_prices (paymentRequired c r amount (Some p) w) amount p)
       \<and> (\<forall>r amount. 0 \<le> amount \<and> isSafeInteger amount \<longrightarrow>
            shows_both_prices (paymentRequired c r amount None w) amount
              \<lceil>real_of_int amount / 1000\<rceil>)"
proof (intro conjI)
  show "\<forall>(r, amount, p) \<in> set call_sites.
            shows_both_prices (paymentRequired c r amount (Some p) w) amount p"
  proof (clarify)
    fix r amount p assume "(r, amount, p) \<in> set call_sites"
    then have "p \<noteq> 0" using call_sites_priced by fastforce
    with assms show "shows_both_prices (paymentRequired c r amount (Some p) w) amount p"
      by (rule both_prices_supplied)
  qed
  show "\<forall>r amount p. 0 \<le> amount \<and> isSafeInteger amount \<and> 0 < p \<and> isSafeInteger p \<longrightarrow>
            shows_both_prices (paymentRequired c r amount (Some p) w) amount p"
    using assms by (simp add: both_prices_supplied)
  show "\<forall>r amount. 0 \<le> amount \<and> isSafeInteger amount \<longrightarrow>
            shows_both_prices (paymentRequired c r amount None w) amount
              \<lceil>real_of_int amount / 1000\<rceil>"
    using assms by (simp add: both_prices_fallback)
qed

theorem payment_options_both_prices_witness:
  "getPaymentTokenType (request_with None None None) = STX
   \<and> (''/peg-health'', 2000, 2) \<in> set call_sites
   \<and> sbtc_option.price (sbtc (paymentOptions (the_stx (body
        (paymentRequired (request_with None None None) ''/peg-health'' 2000 (Some 2) quiet_world))))) = 2
   \<and> stx_option.price (stx (paymentOptions (the_stx (body
        (paymentRequired (request_with None None None) ''/peg-health'' 2000 (Some 2) quiet_world))))) = 2000
   \<and> (0 \<le> (2500::int) \<and> isSafeInteger 2500 \<and> 0 < (7::int) \<and> isSafeInteger 7)
   \<and> sbtc_option.price (sbtc (paymentOptions (the_stx (body
        (paymentRequired (request_with None None None) ''/alpha'' 2500 (Some 7) quiet_world))))) = 7
   \<and> sbtc_option.price (sbtc (paymentOptions (the_stx (body
        (paymentRequired (request_with None None None) ''/alpha'' 2500 None quiet_world))))) = 3"
proof -
  have t: "getPaymentTokenType (request_with None None None) = STX"
    by (simp add: request_defs)
  have s1: "(''/peg-health'', 2000, 2) \<in> set call_sites"
    by (simp add: call_sites_def CONTRACT_def)
  have rng: "0 \<le> (2500::int) \<and> isSafeInteger 2500 \<and> 0 < (7::int) \<and> isSafeInteger 7"
    by (simp add: isSafeInteger_def)
  have c: "\<lceil>real_of_int 2500 / 1000\<rceil> = 3" by simp
  note inst = payment_options_both_prices [OF t, of quiet_world]
  from bspec [OF inst [THEN conjunct1] s1] have
    "shows_both_prices (paymentRequired (request_with None None None)
        ''/peg-health'' 2000 (Some 2) quiet_world) 2000 2" by simp
  moreover from inst [THEN conjunct2, THEN conjunct1, rule_format, OF rng] have
    "shows_both_prices (paymentRequired (request_with None None None)
        ''/alpha'' 2500 (Some 7) quiet_world) 2500 7" .
  moreover from rng have "0 \<le> (2500::int) \<and> isSafeInteger 2500" by simp
  from inst [THEN conjunct2, THEN conjunct2, rule_format, OF this] have
    "shows_both_prices (paymentRequired (request_with None None None)
        ''/alpha'' 2500 None quiet_world) 2500 \<lceil>real_of_int 2500 / 1000\<rceil>" .
  ultimately show ?thesis
    using t s1 rng by (simp add: shows_both_prices_def)
qed

end
